theory Spec2Isabelle
  imports Main "HOL-Library.Log_Nat" "HOL-Library.Sublist"
begin

section \<open>JavaScript values used by the agents\<close>

subsection \<open>Numbers\<close>

text \<open>
  A JavaScript number is an IEEE-754 binary64 value. The router only ever holds
  \<open>0\<close>, sums of the literals \<open>0.2\<close> and \<open>0.1\<close>, the literals \<open>0.5\<close>, \<open>0.9\<close>,
  \<open>0.95\<close>, \<open>1\<close>, and differences of two scores. A number is modelled by the rational it
  denotes, and every arithmetic result is rounded to the nearest binary64 value, ties to
  even: \<open>round_double x\<close> scales \<open>x\<close> by \<open>2 ^ 56\<close>, keeps 53 significant bits of the
  integer part and rounds the rest away. This is the binary64 rounding of \<open>x\<close> whenever
  \<open>x\<close> is a multiple of \<open>2 ^ - 56\<close> or \<open>2 ^ - 4 \<le> \<bar>x\<bar>\<close> (overflow to infinity, which needs
  \<open>\<bar>x\<bar> \<ge> 2 ^ 1024\<close>, is not represented); all sums and differences of values that are
  \<open>0\<close> or at least \<open>0.1\<close> are of this kind.
\<close>

type_synonym number = rat

definition round_half_even :: "rat \<Rightarrow> int" where
  "round_half_even y =
     (let m = \<lfloor>y\<rfloor>; f = y - of_int m
      in if f < 1 / 2 then m
         else if 1 / 2 < f then m + 1
         else if even m then m else m + 1)"

definition round_magnitude :: "rat \<Rightarrow> number" where
  "round_magnitude x =
     (let s = x * 2 ^ 56;
          k = nat (bitlen \<lfloor>s\<rfloor> - 53);
          u = 2 ^ k
      in of_int (round_half_even (s / of_int u) * u) / 2 ^ 56)"

definition round_double :: "rat \<Rightarrow> number" where
  "round_double x = (if x < 0 then - round_magnitude (- x) else round_magnitude x)"

definition js_add :: "number \<Rightarrow> number \<Rightarrow> number" where
  "js_add a b = round_double (a + b)"

definition js_sub :: "number \<Rightarrow> number \<Rightarrow> number" where
  "js_sub a b = round_double (a - b)"

subsection \<open>Strings\<close>

text \<open>
  A string is the list of the bytes of its UTF-8 encoding, so ASCII text is a list of its
  characters. \<open>toLowerCase\<close> maps \<open>A\<close>-\<open>Z\<close> to \<open>a\<close>-\<open>z\<close> and leaves every other byte
  alone: the keyword lists and patterns of the agents are ASCII, and the only non-ASCII
  characters whose JavaScript lower case contains an ASCII letter are U+0130 and U+212A.
\<close>

definition toLowerChar :: "char \<Rightarrow> char" where
  "toLowerChar c =
     (let n = (of_char c :: nat) in if 65 \<le> n \<and> n \<le> 90 then char_of (n + 32) else c)"

definition toLowerCase :: "string \<Rightarrow> string" where
  "toLowerCase s = map toLowerChar s"

text \<open>\<open>message.includes(keyword)\<close>: the keyword occurs as a contiguous substring.\<close>

fun js_includes :: "string \<Rightarrow> string \<Rightarrow> bool" where
  "js_includes [] k = (k = [])"
| "js_includes (c # cs) k = (prefix k (c # cs) \<or> js_includes cs k)"

text \<open>
  \<open>new RegExp(`\\b${keyword}\\b`, 'i').test(message)\<close>. Without the \<open>u\<close> flag a word
  character is one of \<open>[A-Za-z0-9_]\<close>, and \<open>\b\<close> holds between two positions exactly
  when one side is a word character and the other is not (the ends of the string count as
  non-word). For a keyword without RegExp syntax characters (\<open>regexLiteral\<close>) the pattern
  is the keyword itself, compared without regard to ASCII case, between two such
  boundaries; the search tries every start position from left to right.
\<close>

definition isWordChar :: "char \<Rightarrow> bool" where
  "isWordChar c =
     (let n = (of_char c :: nat)
      in (97 \<le> n \<and> n \<le> 122) \<or> (65 \<le> n \<and> n \<le> 90) \<or> (48 \<le> n \<and> n \<le> 57) \<or> n = 95)"

definition wordBoundary :: "char option \<Rightarrow> char option \<Rightarrow> bool" where
  "wordBoundary a b =
     ((case a of None \<Rightarrow> False | Some c \<Rightarrow> isWordChar c)
        \<noteq> (case b of None \<Rightarrow> False | Some c \<Rightarrow> isWordChar c))"

definition charAt :: "string \<Rightarrow> nat \<Rightarrow> char option" where
  "charAt s i = (if i < length s then Some (s ! i) else None)"

definition wordMatchHere :: "char option \<Rightarrow> string \<Rightarrow> string \<Rightarrow> bool" where
  "wordMatchHere prev s k =
     (prefix k s
        \<and> wordBoundary prev (charAt s 0)
        \<and> wordBoundary (if k = [] then prev else Some (last k)) (charAt s (length k)))"

fun wordSearch :: "char option \<Rightarrow> string \<Rightarrow> string \<Rightarrow> bool" where
  "wordSearch prev [] k = wordMatchHere prev [] k"
| "wordSearch prev (c # cs) k = (wordMatchHere prev (c # cs) k \<or> wordSearch (Some c) cs k)"

definition wordPatternTest :: "string \<Rightarrow> string \<Rightarrow> bool" where
  "wordPatternTest keyword message =
     wordSearch None (toLowerCase message) (toLowerCase keyword)"



subsection \<open>Untyped values\<close>

text \<open>
  What \<open>JSON.parse\<close> returns, and what a field holds after an unchecked cast:
  \<open>Undefined\<close> is a missing property.
\<close>

datatype jsvalue =
    Undefined
  | Null
  | Boolean bool
  | Number number
  | String string
  | Array "jsvalue list"
  | Object "(string \<times> jsvalue) list"

fun truthy :: "jsvalue \<Rightarrow> bool" where
  "truthy Undefined = False"
| "truthy Null = False"
| "truthy (Boolean b) = b"
| "truthy (Number n) = (n \<noteq> 0)"
| "truthy (String s) = (s \<noteq> [])"
| "truthy (Array xs) = True"
| "truthy (Object ps) = True"

section \<open>Types of the agent system\<close>

text \<open>
  \<open>enum AgentType\<close> has the four members \<open>ROUTER\<close>, \<open>SUPPORT\<close>, \<open>ORDER\<close>, \<open>BILLING\<close>, each
  the string of its name. \<open>LLMRouterAgentImpl.route\<close> casts a parsed JSON value to
  \<open>AgentType\<close> without a check, and the coordinator's \<open>switch\<close> has a \<open>default\<close> branch for
  it: \<open>Unrecognized v\<close> is such a value \<open>v\<close> outside the enum.
\<close>

datatype AgentType = ROUTER | SUPPORT | ORDER | BILLING | Unrecognized jsvalue

fun agentTypeString :: "AgentType \<Rightarrow> jsvalue" where
  "agentTypeString ROUTER = String ''ROUTER''"
| "agentTypeString SUPPORT = String ''SUPPORT''"
| "agentTypeString ORDER = String ''ORDER''"
| "agentTypeString BILLING = String ''BILLING''"
| "agentTypeString (Unrecognized v) = v"

text \<open>
  The name a member shows in a template literal. Only members are ever interpolated
  (\<open>best.type\<close> in \<open>route\<close> is taken from a list of three of them).
\<close>

definition memberName :: "AgentType \<Rightarrow> string" where
  "memberName a = (case agentTypeString a of String n \<Rightarrow> n | _ \<Rightarrow> [])"

text \<open>\<open>value as AgentType\<close>: the value itself, read as an agent type.\<close>

definition asAgentType :: "jsvalue \<Rightarrow> AgentType" where
  "asAgentType v =
     (if v = String ''ROUTER'' then ROUTER
      else if v = String ''SUPPORT'' then SUPPORT
      else if v = String ''ORDER'' then ORDER
      else if v = String ''BILLING'' then BILLING
      else Unrecognized v)"

datatype MessageRole = USER | ASSISTANT | SYSTEM | TOOL

text \<open>
  The interfaces share field names. Among the records of this section (\<open>ChatMessage\<close>,
  \<open>ConversationContext\<close>, \<open>AgentResponse\<close>, \<open>RouteDecision\<close>) a field is written with
  its record's name where the plain name would mean a later record
  (\<open>ConversationContext.agentType\<close>); in every other record the field \<open>f\<close> of interface
  \<open>I\<close> is named \<open>I_f\<close>.
\<close>

record ChatMessage =
  role :: MessageRole
  content :: string
  agentType :: "AgentType option"

text \<open>
  \<open>metadata\<close> is the conversation's stored context object; every value this repository
  writes into it (\<open>lastOrderNumber\<close>, \<open>orderStatus\<close>, \<open>trackingNumber\<close>, \<open>lastAgentType\<close>,
  \<open>lastMessageAt\<close>) is a string.
\<close>

record ConversationContext =
  conversationId :: string
  userId :: string
  previousMessages :: "ChatMessage list"
  agentType :: AgentType
  metadata :: "(string \<times> string) list option"

record ToolCall =
  ToolCall_name :: string
  ToolCall_arguments :: "(string \<times> jsvalue) list"
  ToolCall_result :: jsvalue

text \<open>
  \<open>reasoning\<close> is declared \<open>string | undefined\<close>; the coordinator stores the decision's
  \<open>reasoning\<close> there, which under the LLM router is any parsed value.
\<close>

record AgentResponse =
  content :: string
  agentType :: AgentType
  toolCalls :: "ToolCall list option"
  reasoning :: jsvalue

text \<open>
  \<open>confidence\<close> and \<open>reasoning\<close> are declared \<open>number\<close> and \<open>string\<close>; the LLM router
  stores whatever the parsed reply holds there, so both fields carry any value.
\<close>

record RouteDecision =
  agentType :: AgentType
  confidence :: jsvalue
  reasoning :: jsvalue

section \<open>The keyword router (\<open>RouterAgentImpl\<close>)\<close>

record RouterAgentImpl =
  orderKeywords :: "string list"
  billingKeywords :: "string list"
  supportKeywords :: "string list"

definition routerAgent :: RouterAgentImpl where
  "routerAgent =
     \<lparr>orderKeywords =
        [''order'', ''tracking'', ''shipped'', ''delivery'', ''cancel'', ''modify'',
         ''order number'', ''ord-'', ''where is my'', ''when will'', ''arrival'',
         ''shipping'', ''delivery status'', ''track my''],
      billingKeywords =
        [''payment'', ''refund'', ''invoice'', ''charge'', ''bill'', ''money'',
         ''subscription'', ''credit card'', ''pay'', ''transaction'', ''price'',
         ''invoice'', ''receipt'', ''cost'', ''fee''],
      supportKeywords =
        [''help'', ''question'', ''problem'', ''issue'', ''faq'', ''how to'',
         ''support'', ''account'', ''login'', ''password'', ''reset'',
         ''return'', ''exchange'', ''warranty'', ''product'']\<rparr>"

text \<open>The body of the \<open>for\<close> loop of \<open>calculateScore\<close>, for one keyword.\<close>

definition scoreStep :: "string \<Rightarrow> number \<Rightarrow> string \<Rightarrow> number" where
  "scoreStep message score keyword =
     (if js_includes message keyword
      then (let score1 = js_add score (round_double (2 / 10))
            in if wordPatternTest keyword message
               then js_add score1 (round_double (1 / 10))
               else score1)
      else score)"

fun scoreLoop :: "string \<Rightarrow> string list \<Rightarrow> number \<Rightarrow> number" where
  "scoreLoop message [] score = score"
| "scoreLoop message (keyword # keywords) score =
     scoreLoop message keywords (scoreStep message score keyword)"

definition calculateScore :: "string \<Rightarrow> string list \<Rightarrow> number" where
  "calculateScore message keywords = min (scoreLoop message keywords 0) 1"

definition isRelatedToAgent :: "RouterAgentImpl \<Rightarrow> string \<Rightarrow> AgentType \<Rightarrow> bool" where
  "isRelatedToAgent this message a =
     (let messageLower = toLowerCase message
      in case a of
           ORDER \<Rightarrow> round_double (1 / 10) < calculateScore messageLower (orderKeywords this)
         | BILLING \<Rightarrow> round_double (1 / 10) < calculateScore messageLower (billingKeywords this)
         | SUPPORT \<Rightarrow> round_double (1 / 10) < calculateScore messageLower (supportKeywords this)
         | _ \<Rightarrow> False)"

text \<open>
  \<open>scores.sort((a, b) => b.score - a.score)\<close>: \<open>Array.prototype.sort\<close> is stable; an
  element goes before another when the comparator is negative, and keeps its place
  behind the elements it compares equal to.
\<close>

fun insertBy :: "('a \<Rightarrow> 'a \<Rightarrow> number) \<Rightarrow> 'a \<Rightarrow> 'a list \<Rightarrow> 'a list" where
  "insertBy cmp x [] = [x]"
| "insertBy cmp x (y # ys) = (if cmp x y \<le> 0 then x # y # ys else y # insertBy cmp x ys)"

definition js_sort :: "('a \<Rightarrow> 'a \<Rightarrow> number) \<Rightarrow> 'a list \<Rightarrow> 'a list" where
  "js_sort cmp xs = foldr (insertBy cmp) xs []"

definition agentTypeSet :: "AgentType \<Rightarrow> bool" where
  "agentTypeSet a = truthy (agentTypeString a)"

text \<open>The part of \<open>route\<close> after its first \<open>if\<close>: score, sort, pick.\<close>

definition sortedScores :: "RouterAgentImpl \<Rightarrow> string \<Rightarrow> (AgentType \<times> number) list" where
  "sortedScores this messageLower =
     (let orderScore = calculateScore messageLower (orderKeywords this);
          billingScore = calculateScore messageLower (billingKeywords this);
          supportScore = calculateScore messageLower (supportKeywords this);
          scores = [(ORDER, orderScore), (BILLING, billingScore), (SUPPORT, supportScore)]
      in js_sort (\<lambda>a b. js_sub (snd b) (snd a)) scores)"

definition classify :: "RouterAgentImpl \<Rightarrow> string \<Rightarrow> RouteDecision" where
  "classify this messageLower =
     (let best = hd (sortedScores this messageLower)
      in if snd best < round_double (2 / 10)
         then \<lparr>agentType = SUPPORT,
               confidence = Number (round_double (5 / 10)),
               reasoning = String ''Low confidence - using support agent as fallback''\<rparr>
         else \<lparr>agentType = fst best,
               confidence = Number (min (snd best) (round_double (95 / 100))),
               reasoning =
                 String (''Matched '' @ memberName (fst best) @ '' keywords in message'')\<rparr>)"

definition route :: "RouterAgentImpl \<Rightarrow> string \<Rightarrow> ConversationContext option \<Rightarrow> RouteDecision" where
  "route this message context =
     (let messageLower = toLowerCase message
      in case context of
           None \<Rightarrow> classify this messageLower
         | Some c \<Rightarrow>
             if agentTypeSet (ConversationContext.agentType c)
                  \<and> ConversationContext.agentType c \<noteq> ROUTER
                  \<and> isRelatedToAgent this message (ConversationContext.agentType c)
             then \<lparr>agentType = ConversationContext.agentType c,
                   confidence = Number (round_double (9 / 10)),
                   reasoning =
                     String ''Continuing with same agent based on conversation context''\<rparr>
             else classify this messageLower)"

text \<open>
  The condition under which \<open>route\<close> returns from its first \<open>if\<close>: a context is given,
  its agent type is set and is not \<open>ROUTER\<close>, and the message is related to that agent.
\<close>

definition continuesContext :: "RouterAgentImpl \<Rightarrow> string \<Rightarrow> ConversationContext option \<Rightarrow> bool" where
  "continuesContext this message context =
     (case context of
        None \<Rightarrow> False
      | Some c \<Rightarrow>
          agentTypeSet (ConversationContext.agentType c)
            \<and> ConversationContext.agentType c \<noteq> ROUTER
            \<and> isRelatedToAgent this message (ConversationContext.agentType c))"

section \<open>The LLM router (\<open>LLMRouterAgentImpl\<close>)\<close>

text \<open>
  What a \<open>throw\<close> or a rejected promise carries. \<open>generateText\<close> (the text-generation
  service), \<open>String.prototype.trim\<close> and \<open>JSON.parse\<close> are not code of this repository;
  \<open>route\<close> takes them as parameters. \<open>generateText\<close> is given the system prompt and the
  prompt (its \<open>model\<close> and \<open>temperature\<close> arguments are constants).
\<close>

datatype exn = TypeError | SyntaxError | Error string

record LLMServices =
  generateText :: "string \<Rightarrow> string \<Rightarrow> exn + string"
  trim :: "string \<Rightarrow> string"
  JSON_parse :: "string \<Rightarrow> exn + jsvalue"

text \<open>
  \<open>.replace(/```json\n?|\n?```/g, '')\<close>: from left to right, every occurrence of
  \<open>```json\<close> with a newline after it if there is one, and otherwise of \<open>```\<close> with the
  newline before it if there is one, is removed.
\<close>

definition dropNewline :: "string \<Rightarrow> string" where
  "dropNewline s = (case s of [] \<Rightarrow> [] | c # cs \<Rightarrow> if c = CHR 0x0A then cs else c # cs)"

function removeFences :: "string \<Rightarrow> string" where
  "removeFences [] = []"
| "removeFences (c # cs) =
     (if prefix ''```json'' (c # cs) then removeFences (dropNewline (drop 7 (c # cs)))
      else if prefix (CHR 0x0A # ''```'') (c # cs) then removeFences (drop 4 (c # cs))
      else if prefix ''```'' (c # cs) then removeFences (drop 3 (c # cs))
      else c # removeFences cs)"
  by pat_completeness auto

lemma length_dropNewline: "length (dropNewline s) \<le> length s"
  by (simp add: dropNewline_def split: list.splits)

termination removeFences
proof (relation "measure length")
  fix c :: char and cs :: string
  have "length (dropNewline (drop 7 (c # cs))) \<le> length (drop 7 (c # cs))"
    by (rule length_dropNewline)
  then show "(dropNewline (drop 7 (c # cs)), c # cs) \<in> measure length"
    by simp
qed simp_all

text \<open>
  \<open>result.agentType\<close>, \<open>result.confidence\<close>, \<open>result.reasoning\<close>: reading a property of
  \<open>null\<close> or \<open>undefined\<close> throws a TypeError; an object has the property it was parsed
  with; no other value has a property of one of these three names.
\<close>

fun getProperty :: "jsvalue \<Rightarrow> string \<Rightarrow> exn + jsvalue" where
  "getProperty Undefined p = Inl TypeError"
| "getProperty Null p = Inl TypeError"
| "getProperty (Object ps) p = Inr (case map_of ps p of Some v \<Rightarrow> v | None \<Rightarrow> Undefined)"
| "getProperty v p = Inr Undefined"

definition LLMRouterAgentImpl_getSystemPrompt :: string where
  "LLMRouterAgentImpl_getSystemPrompt =
     ''You are an intelligent routing agent for a customer support system. Your job is to classify customer messages into one of three categories:\<newline>\<newline>1. **ORDER** (AgentType: ORDER) - Messages about:\<newline>   - Order status, tracking, or delivery information\<newline>   - Order cancellations or modifications\<newline>   - Order placement or confirmation\<newline>   - Shipping addresses or delivery dates\<newline>   - '' @ [CHR 0x22] @ ''Where is my order?'' @ [CHR 0x22] @ '', '' @ [CHR 0x22] @ ''Can I cancel my order?'' @ [CHR 0x22] @ '', '' @ [CHR 0x22] @ ''Track my package'' @ [CHR 0x22] @ ''\<newline>\<newline>2. **BILLING** (AgentType: BILLING) - Messages about:\<newline>   - Payments, charges, or billing issues\<newline>   - Refunds or credit\<newline>   - Invoices or receipts\<newline>   - Subscription management\<newline>   - Price inquiries or payment methods\<newline>   - '' @ [CHR 0x22] @ ''I was charged twice'' @ [CHR 0x22] @ '', '' @ [CHR 0x22] @ ''Can I get a refund?'' @ [CHR 0x22] @ '', '' @ [CHR 0x22] @ ''What's the cost?'' @ [CHR 0x22] @ ''\<newline>\<newline>3. **SUPPORT** (AgentType: SUPPORT) - Messages about:\<newline>   - General help or questions\<newline>   - Account issues (login, password reset)\<newline>   - Product information or FAQs\<newline>   - Returns or exchanges\<newline>   - Warranty or technical support\<newline>   - Any inquiry that doesn't fit ORDER or BILLING\<newline>   - '' @ [CHR 0x22] @ ''How do I...?'' @ [CHR 0x22] @ '', '' @ [CHR 0x22] @ ''I have a problem'' @ [CHR 0x22] @ '', '' @ [CHR 0x22] @ ''Can you help?'' @ [CHR 0x22] @ ''\<newline>\<newline>Instructions:\<newline>- Analyze the customer message carefully\<newline>- Return the BEST matching agent type\<newline>- Provide a confidence score between 0 and 1 (higher = more certain)\<newline>- If multiple categories fit, choose the PRIMARY intent\<newline>- Default to SUPPORT if uncertain''"

definition LLMRouterAgentImpl_prompt :: "string \<Rightarrow> string" where
  "LLMRouterAgentImpl_prompt message =
     ''User message: '' @ [CHR 0x22] @ message @ [CHR 0x22] @ ''\<newline>\<newline>Respond with ONLY valid JSON (no markdown, no explanations):\<newline>{'' @ [CHR 0x22] @ ''agentType'' @ [CHR 0x22] @ '': '' @ [CHR 0x22] @ ''ORDER|BILLING|SUPPORT'' @ [CHR 0x22] @ '', '' @ [CHR 0x22] @ ''confidence'' @ [CHR 0x22] @ '': 0.0-1.0, '' @ [CHR 0x22] @ ''reasoning'' @ [CHR 0x22] @ '': '' @ [CHR 0x22] @ ''brief explanation'' @ [CHR 0x22] @ ''}''"

text \<open>The \<open>try\<close> block of \<open>route\<close>: \<open>Inl\<close> is what it throws.\<close>

definition LLMRouterAgentImpl_tryRoute :: "LLMServices \<Rightarrow> string \<Rightarrow> exn + RouteDecision" where
  "LLMRouterAgentImpl_tryRoute services message =
     (let systemPrompt = LLMRouterAgentImpl_getSystemPrompt
      in case generateText services systemPrompt (LLMRouterAgentImpl_prompt message) of
           Inl e \<Rightarrow> Inl e
         | Inr text \<Rightarrow>
             (let cleanedText = removeFences (trim services text)
              in case JSON_parse services cleanedText of
                   Inl e \<Rightarrow> Inl e
                 | Inr result \<Rightarrow>
                     (case getProperty result ''agentType'' of
                        Inl e \<Rightarrow> Inl e
                      | Inr a \<Rightarrow>
                          (case getProperty result ''confidence'' of
                             Inl e \<Rightarrow> Inl e
                           | Inr c \<Rightarrow>
                               (case getProperty result ''reasoning'' of
                                  Inl e \<Rightarrow> Inl e
                                | Inr r \<Rightarrow>
                                    Inr \<lparr>agentType = asAgentType a,
                                         confidence = c,
                                         reasoning = r\<rparr>)))))"

text \<open>\<open>route\<close>: the \<open>catch\<close> clause logs the error and returns the fallback decision.\<close>

definition LLMRouterAgentImpl_route :: "LLMServices \<Rightarrow> string \<Rightarrow> RouteDecision" where
  "LLMRouterAgentImpl_route services message =
     (case LLMRouterAgentImpl_tryRoute services message of
        Inr decision \<Rightarrow> decision
      | Inl error \<Rightarrow>
          \<lparr>agentType = SUPPORT,
           confidence = Number (round_double (5 / 10)),
           reasoning = String ''LLM routing failed, using fallback''\<rparr>)"

section \<open>Patterns of the responders\<close>

text \<open>
  Every pattern of the three responders is an alternation whose alternatives are
  lower-case literals joined by \<open>.*\<close>, with the flag \<open>i\<close>; the alternatives of the greeting
  pattern each start with \<open>^\<close>. A pattern is the list of its alternatives, an alternative
  the list of its literals. \<open>.\<close> matches any character but a line terminator (\<open>\n\<close>,
  \<open>\r\<close>, U+2028, U+2029), so \<open>.*\<close> may skip any stretch that holds none.
\<close>

definition isLineTerminatorAt :: "string \<Rightarrow> bool" where
  "isLineTerminatorAt s =
     (prefix [CHR 0x0A] s \<or> prefix [CHR 0x0D] s
        \<or> prefix [CHR 0xE2, CHR 0x80, CHR 0xA8] s \<or> prefix [CHR 0xE2, CHR 0x80, CHR 0xA9] s)"

fun dotStarSuffixes :: "string \<Rightarrow> string list" where
  "dotStarSuffixes [] = [[]]"
| "dotStarSuffixes (c # cs) =
     (c # cs) # (if isLineTerminatorAt (c # cs) then [] else dotStarSuffixes cs)"

fun matchSegments :: "string list \<Rightarrow> string \<Rightarrow> bool" where
  "matchSegments [] s = True"
| "matchSegments (l # rest) s =
     (prefix l s \<and> list_ex (matchSegments rest) (dotStarSuffixes (drop (length l) s)))"

definition regexTest :: "string list list \<Rightarrow> string \<Rightarrow> bool" where
  "regexTest alternatives s =
     list_ex (\<lambda>segments. list_ex (matchSegments segments) (suffixes (toLowerCase s)))
       alternatives"

definition regexTestAtStart :: "string list list \<Rightarrow> string \<Rightarrow> bool" where
  "regexTestAtStart alternatives s =
     list_ex (\<lambda>segments. matchSegments segments (toLowerCase s)) alternatives"

text \<open>
  \<open>message.match(/ORD-\d{3}/i)\<close>, \<open>/REF-\d+/i\<close>, \<open>/INV-\d+/i\<close>: the leftmost
  occurrence of the prefix, in either case, followed by three digits (by one or more
  digits, as many as follow); element \<open>0\<close> of the match is the matched text.
\<close>

definition isDigit :: "char \<Rightarrow> bool" where
  "isDigit c = (let n = (of_char c :: nat) in 48 \<le> n \<and> n \<le> 57)"

fun matchOrderNumber :: "string \<Rightarrow> string option" where
  "matchOrderNumber [] = None"
| "matchOrderNumber (c # cs) =
     (if toLowerCase (take 4 (c # cs)) = ''ord-'' \<and> 7 \<le> length (c # cs)
           \<and> list_all isDigit (take 3 (drop 4 (c # cs)))
      then Some (take 7 (c # cs))
      else matchOrderNumber cs)"

fun matchPrefixedDigits :: "string \<Rightarrow> string \<Rightarrow> string option" where
  "matchPrefixedDigits p [] = None"
| "matchPrefixedDigits p (c # cs) =
     (if toLowerCase (take (length p) (c # cs)) = p
           \<and> takeWhile isDigit (drop (length p) (c # cs)) \<noteq> []
      then Some (take (length p + length (takeWhile isDigit (drop (length p) (c # cs)))) (c # cs))
      else matchPrefixedDigits p cs)"

subsection \<open>Template literals and truthiness of optional strings\<close>

text \<open>\<open>${x}\<close> for a string that may be \<open>undefined\<close>; \<open>x || d\<close>; \<open>!x\<close>; \<open>xs.join(sep)\<close>.\<close>

definition interpolate :: "string option \<Rightarrow> string" where
  "interpolate x = (case x of None \<Rightarrow> ''undefined'' | Some s \<Rightarrow> s)"

definition nonEmpty :: "string option \<Rightarrow> string option" where
  "nonEmpty x = (case x of None \<Rightarrow> None | Some s \<Rightarrow> if s = [] then None else Some s)"

definition orDefault :: "string option \<Rightarrow> string \<Rightarrow> string" where
  "orDefault x d = (case nonEmpty x of None \<Rightarrow> d | Some s \<Rightarrow> s)"

fun join :: "string \<Rightarrow> string list \<Rightarrow> string" where
  "join sep [] = []"
| "join sep [x] = x"
| "join sep (x # y # ys) = x @ sep @ join sep (y # ys)"

text \<open>\<open>${n}\<close> for the length of an array.\<close>

function showNat :: "nat \<Rightarrow> string" where
  "showNat n =
     (if n < 10 then [char_of (48 + n)] else showNat (n div 10) @ [char_of (48 + n mod 10)])"
  by pat_completeness auto
termination
  by (relation "measure id") auto

section \<open>Tool invocations\<close>

text \<open>
  The data tools are injected into each responder (\<open>this.tools\<close>). Each default tool
  catches every error of its queries and returns a result, so a tool is a function from
  its arguments to its result, read off the store as it is during the one message. A
  handler returns its response together with the tool invocations it made, in order.
  Number and date fields of the tool results are only ever interpolated into reply text
  (dates after \<open>toLocaleDateString\<close>); they are carried as the text they render to.
\<close>

record OrderItem =
  OrderItem_name :: string
  OrderItem_quantity :: string
  OrderItem_price :: string

record OrderModification =
  OrderModification_shippingAddress :: "(string \<times> string) list option"
  OrderModification_addItems :: "OrderItem list option"
  OrderModification_removeItems :: "string list option"

datatype ToolInvocation =
    GetOrderDetails string
  | GetUserOrders string
  | TrackOrder string
  | CancelOrder string string
  | ModifyOrder string OrderModification
  | GetInvoiceDetails string
  | GetPaymentHistory string
  | CheckRefundStatus string
  | GetSubscriptionInfo string
  | ProcessRefund string number string
  | QueryConversationHistory string nat
  | SearchFAQs string
  | GetUserInfo string
  | GetRecentInteractions string

text \<open>The tools that change the store; all others only read it.\<close>

fun isWrite :: "ToolInvocation \<Rightarrow> bool" where
  "isWrite (CancelOrder n r) = True"
| "isWrite (ModifyOrder n m) = True"
| "isWrite (ProcessRefund i a r) = True"
| "isWrite t = False"

section \<open>The order responder (\<open>OrderAgentImpl\<close>)\<close>

record OrderDetailsData =
  OrderDetailsData_orderNumber :: string
  OrderDetailsData_status :: string
  OrderDetailsData_total :: string
  OrderDetailsData_currency :: string
  OrderDetailsData_items :: "OrderItem list"
  OrderDetailsData_shippingAddress :: "(string \<times> string) list option"
  OrderDetailsData_createdAt :: string
  OrderDetailsData_updatedAt :: string

record OrderDetailsResult =
  OrderDetailsResult_success :: bool
  OrderDetailsResult_data :: "OrderDetailsData option"
  OrderDetailsResult_error :: "string option"

record OrderSummary =
  OrderSummary_orderNumber :: string
  OrderSummary_status :: string
  OrderSummary_total :: string
  OrderSummary_currency :: string
  OrderSummary_itemCount :: string
  OrderSummary_createdAt :: string

record TrackingResult =
  TrackingResult_success :: bool
  TrackingResult_trackingNumber :: "string option"
  TrackingResult_trackingUrl :: "string option"
  TrackingResult_status :: "string option"
  TrackingResult_estimatedDelivery :: "string option"
  TrackingResult_error :: "string option"

record CancellationResult =
  CancellationResult_success :: bool
  CancellationResult_orderNumber :: string
  CancellationResult_status :: string
  CancellationResult_refundAmount :: "string option"
  CancellationResult_message :: string

record ModificationResult =
  ModificationResult_success :: bool
  ModificationResult_orderNumber :: string
  ModificationResult_message :: string
  ModificationResult_updatedFields :: "string list option"

record OrderToolFunctions =
  getOrderDetails :: "string \<Rightarrow> OrderDetailsResult"
  getUserOrders :: "string \<Rightarrow> OrderSummary list"
  trackOrder :: "string \<Rightarrow> TrackingResult"
  cancelOrder :: "string \<Rightarrow> string \<Rightarrow> CancellationResult"
  modifyOrder :: "string \<Rightarrow> OrderModification \<Rightarrow> ModificationResult"

definition isTrackingRequest :: "string \<Rightarrow> bool" where
  "isTrackingRequest message =
     regexTest [[''track''], [''tracking''], [''where'', ''is'', ''my''], [''delivery status''],
                [''shipped'']] message"

definition isStatusRequest :: "string \<Rightarrow> bool" where
  "isStatusRequest message =
     regexTest [[''status''], [''order'', ''detail''], [''what'', ''order''],
                [''check'', ''order'']] message"

definition isCancellationRequest :: "string \<Rightarrow> bool" where
  "isCancellationRequest message =
     regexTest [[''cancel''], [''stop'', ''order''], [''don't'', ''want''],
                [''changed'', ''mind'']] message"

definition isModificationRequest :: "string \<Rightarrow> bool" where
  "isModificationRequest message =
     regexTest [[''change'', ''address''], [''modify'', ''order''], [''update'', ''order''],
                [''add'', ''item''], [''remove'', ''item'']] message"

definition extractCancellationReason :: "string \<Rightarrow> string" where
  "extractCancellationReason message =
     (if regexTest [[''changed'', ''mind'']] message then ''Customer changed their mind''
      else if regexTest [[''found'', ''better'', ''price'']] message
           then ''Found better price elsewhere''
      else if regexTest [[''no'', ''longer'', ''need'']] message then ''No longer need the item''
      else if regexTest [[''wrong'', ''item'']] message then ''Ordered wrong item''
      else ''Customer requested cancellation'')"

definition parseModifications :: "string \<Rightarrow> OrderModification" where
  "parseModifications message =
     (if regexTest [[''change'', ''address''], [''update'', ''address''], [''new'', ''address'']]
           message
      then \<lparr>OrderModification_shippingAddress =
              Some [(''note'', ''Address change requested - user needs to provide new address'')],
            OrderModification_addItems = None,
            OrderModification_removeItems = None\<rparr>
      else \<lparr>OrderModification_shippingAddress = None,
            OrderModification_addItems = None,
            OrderModification_removeItems = None\<rparr>)"

text \<open>\<open>Object.keys(modifications).length === 0\<close>\<close>

definition noModifications :: "OrderModification \<Rightarrow> bool" where
  "noModifications m =
     (OrderModification_shippingAddress m = None \<and> OrderModification_addItems m = None
        \<and> OrderModification_removeItems m = None)"

definition OrderAgentImpl_handle ::
  "OrderToolFunctions \<Rightarrow> string \<Rightarrow> ConversationContext \<Rightarrow> AgentResponse \<times> ToolInvocation list" where
  "OrderAgentImpl_handle tools message context =
     (let messageLower = toLowerCase message;
          contextData = (case metadata context of None \<Rightarrow> [] | Some m \<Rightarrow> m);
          orderNumberMatch = matchOrderNumber message;
          orderNumber =
            (case orderNumberMatch of
               Some m \<Rightarrow> Some m
             | None \<Rightarrow> map_of contextData ''lastOrderNumber'')
      in if isTrackingRequest messageLower then
           (case nonEmpty orderNumber of
              None \<Rightarrow>
                (\<lparr>content = ''I'd be happy to help you track your order. Could you please provide your order number (e.g., ORD-001)?'',
                  AgentResponse.agentType = ORDER,
                  toolCalls = None,
                  AgentResponse.reasoning = String ''Requesting order number for tracking''\<rparr>,
                 [])
            | Some n \<Rightarrow>
                (let tracking = trackOrder tools n
                 in if TrackingResult_success tracking
                         \<and> nonEmpty (TrackingResult_trackingNumber tracking) \<noteq> None
                    then
                      (\<lparr>content =
                          ''Your order '' @ n @ '' is ''
                            @ interpolate (TrackingResult_status tracking)
                            @ ''. Tracking number: ''
                            @ interpolate (TrackingResult_trackingNumber tracking)
                            @ ''. Track it here: ''
                            @ interpolate (TrackingResult_trackingUrl tracking),
                        AgentResponse.agentType = ORDER,
                        toolCalls = None,
                        AgentResponse.reasoning = String ''Provided tracking information''\<rparr>,
                       [TrackOrder n])
                    else
                      (\<lparr>content =
                          orDefault (TrackingResult_error tracking)
                            ''Unable to retrieve tracking information.'',
                        AgentResponse.agentType = ORDER,
                        toolCalls = None,
                        AgentResponse.reasoning = String ''Tracking information not available''\<rparr>,
                       [TrackOrder n])))
         else if isStatusRequest messageLower then
           (case nonEmpty orderNumber of
              None \<Rightarrow>
                (\<lparr>content = ''I can check your order status. Please provide your order number (e.g., ORD-001).'',
                  AgentResponse.agentType = ORDER,
                  toolCalls = None,
                  AgentResponse.reasoning = String ''Requesting order number for status check''\<rparr>,
                 [])
            | Some n \<Rightarrow>
                (let orderDetails = getOrderDetails tools n
                 in case (if OrderDetailsResult_success orderDetails
                          then OrderDetailsResult_data orderDetails else None) of
                      Some d \<Rightarrow>
                        (\<lparr>content =
                            ''Order '' @ n @ '' Status: '' @ OrderDetailsData_status d
                              @ ''\<newline>\<newline>'' @ ''Items: ''
                              @ join '', ''
                                  (map (\<lambda>i. OrderItem_name i @ '' (x'' @ OrderItem_quantity i
                                            @ '') - $'' @ OrderItem_price i)
                                     (OrderDetailsData_items d))
                              @ ''\<newline>'' @ ''Total: $'' @ OrderDetailsData_total d @ '' ''
                              @ OrderDetailsData_currency d
                              @ ''\<newline>'' @ ''Placed on: '' @ OrderDetailsData_createdAt d,
                          AgentResponse.agentType = ORDER,
                          toolCalls = None,
                          AgentResponse.reasoning = String ''Provided order details''\<rparr>,
                         [GetOrderDetails n])
                    | None \<Rightarrow>
                        (\<lparr>content =
                            orDefault (OrderDetailsResult_error orderDetails)
                              ''Unable to retrieve order details.'',
                          AgentResponse.agentType = ORDER,
                          toolCalls = None,
                          AgentResponse.reasoning = String ''Order details not found''\<rparr>,
                         [GetOrderDetails n])))
         else if isCancellationRequest messageLower then
           (case nonEmpty orderNumber of
              None \<Rightarrow>
                (\<lparr>content = ''I can help you cancel your order. Please provide your order number.'',
                  AgentResponse.agentType = ORDER,
                  toolCalls = None,
                  AgentResponse.reasoning = String ''Requesting order number for cancellation''\<rparr>,
                 [])
            | Some n \<Rightarrow>
                (let reason = extractCancellationReason message;
                     cancellation = cancelOrder tools n reason
                 in (\<lparr>content = CancellationResult_message cancellation,
                      AgentResponse.agentType = ORDER,
                      toolCalls = None,
                      AgentResponse.reasoning =
                        String (''Order '' @ (if CancellationResult_success cancellation
                                             then ''cancelled'' else ''cancellation failed''))\<rparr>,
                     [CancelOrder n reason])))
         else if isModificationRequest messageLower then
           (case nonEmpty orderNumber of
              None \<Rightarrow>
                (\<lparr>content = ''I can help you modify your order. Please provide your order number first.'',
                  AgentResponse.agentType = ORDER,
                  toolCalls = None,
                  AgentResponse.reasoning = String ''Requesting order number for modification''\<rparr>,
                 [])
            | Some n \<Rightarrow>
                (let modifications = parseModifications message
                 in if noModifications modifications then
                      (\<lparr>content = ''What would you like to modify about your order? You can change the shipping address or add/remove items.'',
                        AgentResponse.agentType = ORDER,
                        toolCalls = None,
                        AgentResponse.reasoning = String ''Requesting modification details''\<rparr>,
                       [])
                    else
                      (let result = modifyOrder tools n modifications
                       in (\<lparr>content = ModificationResult_message result,
                            AgentResponse.agentType = ORDER,
                            toolCalls = None,
                            AgentResponse.reasoning =
                              String (''Modification '' @ (if ModificationResult_success result
                                                          then ''completed'' else ''failed''))\<rparr>,
                           [ModifyOrder n modifications]))))
         else
           (let orders = getUserOrders tools (userId context)
            in if length orders = 0 then
                 (\<lparr>content = ''I don't see any orders associated with your account. Have you placed an order recently?'',
                   AgentResponse.agentType = ORDER,
                   toolCalls = None,
                   AgentResponse.reasoning = String ''No orders found for user''\<rparr>,
                  [GetUserOrders (userId context)])
               else
                 (let orderList =
                        join ''\<newline>''
                          (map (\<lambda>ord. [CHR 0xC3, CHR 0xA2, CHR 0xE2, CHR 0x82, CHR 0xAC, CHR 0xC2, CHR 0xA2]
                                     @ '' '' @ OrderSummary_orderNumber ord @ '' - ''
                                     @ OrderSummary_status ord @ '' - $'' @ OrderSummary_total ord
                                     @ '' ('' @ OrderSummary_createdAt ord @ '')'')
                             orders)
                  in (\<lparr>content =
                         ''Here are your recent orders:\<newline>\<newline>'' @ orderList
                           @ ''\<newline>\<newline>Which order would you like help with?'',
                       AgentResponse.agentType = ORDER,
                       toolCalls = None,
                       AgentResponse.reasoning = String ''Listed user orders''\<rparr>,
                      [GetUserOrders (userId context)]))))"

section \<open>The billing responder (\<open>BillingAgentImpl\<close>)\<close>

record InvoiceData =
  InvoiceData_id :: string
  InvoiceData_invoiceUrl :: "string option"
  InvoiceData_amount :: string
  InvoiceData_currency :: string
  InvoiceData_status :: string
  InvoiceData_orderNumber :: string
  InvoiceData_paymentMethod :: string
  InvoiceData_createdAt :: string

record InvoiceResult =
  InvoiceResult_success :: bool
  InvoiceResult_data :: "InvoiceData option"
  InvoiceResult_error :: "string option"

record PaymentSummary =
  PaymentSummary_id :: string
  PaymentSummary_orderNumber :: string
  PaymentSummary_amount :: string
  PaymentSummary_currency :: string
  PaymentSummary_status :: string
  PaymentSummary_paymentMethod :: string
  PaymentSummary_transactionId :: "string option"
  PaymentSummary_createdAt :: string

record RefundData =
  RefundData_id :: string
  RefundData_orderNumber :: string
  RefundData_amount :: string
  RefundData_currency :: string
  RefundData_status :: string
  RefundData_reason :: "string option"
  RefundData_createdAt :: string
  RefundData_updatedAt :: string

record RefundResult =
  RefundResult_success :: bool
  RefundResult_data :: "RefundData option"
  RefundResult_error :: "string option"

record SubscriptionResult =
  SubscriptionResult_success :: bool
  SubscriptionResult_hasSubscription :: "bool option"
  SubscriptionResult_plan :: "string option"
  SubscriptionResult_status :: "string option"
  SubscriptionResult_nextBillingDate :: "string option"
  SubscriptionResult_error :: "string option"

record RefundProcessingResult =
  RefundProcessingResult_success :: bool
  RefundProcessingResult_refundId :: "string option"
  RefundProcessingResult_amount :: "string option"
  RefundProcessingResult_message :: string

record BillingToolFunctions =
  getInvoiceDetails :: "string \<Rightarrow> InvoiceResult"
  getPaymentHistory :: "string \<Rightarrow> PaymentSummary list"
  checkRefundStatus :: "string \<Rightarrow> RefundResult"
  getSubscriptionInfo :: "string \<Rightarrow> SubscriptionResult"
  processRefund :: "string \<Rightarrow> number \<Rightarrow> string \<Rightarrow> RefundProcessingResult"

definition isRefundRequest :: "string \<Rightarrow> bool" where
  "isRefundRequest message =
     regexTest [[''refund''], [''money back''], [''get'', ''money''], [''when'', ''refund''],
                [''refund'', ''status'']] message"

definition isInvoiceRequest :: "string \<Rightarrow> bool" where
  "isInvoiceRequest message =
     regexTest [[''invoice''], [''bill'', ''me''], [''receipt''], [''statement''],
                [''download'', ''invoice'']] message"

definition isPaymentIssue :: "string \<Rightarrow> bool" where
  "isPaymentIssue message =
     regexTest [[''payment'', ''fail''], [''card'', ''declined''], [''charge'', ''issue''],
                [''won't'', ''charge''], [''payment'', ''problem'']] message"

definition isSubscriptionQuery :: "string \<Rightarrow> bool" where
  "isSubscriptionQuery message =
     regexTest [[''subscription''], [''monthly''], [''annual'', ''plan''],
                [''cancel'', ''subscription''], [''change'', ''plan''], [''upgrade'', ''plan'']]
       message"

definition paymentLine :: "PaymentSummary \<Rightarrow> string" where
  "paymentLine p =
     [CHR 0xE2, CHR 0x80, CHR 0xA2] @ '' '' @ PaymentSummary_orderNumber p @ '' - $''
       @ PaymentSummary_amount p @ '' '' @ PaymentSummary_currency p @ '' - ''
       @ PaymentSummary_status p @ '' ('' @ PaymentSummary_createdAt p @ '')''"

text \<open>
  The end of the refund branch, reached without a refund id and also after a refund
  lookup that did not succeed: the payment history is read and its refunded payments are
  listed.
\<close>

definition listRefundedPayments ::
  "BillingToolFunctions \<Rightarrow> ConversationContext \<Rightarrow> AgentResponse \<times> ToolInvocation list" where
  "listRefundedPayments tools context =
     (let payments = getPaymentHistory tools (userId context);
          refundedPayments = filter (\<lambda>p. PaymentSummary_status p = ''REFUNDED'') payments
      in if length refundedPayments = 0 then
           (\<lparr>content = ''I don't see any refunds associated with your account. Would you like to request a refund for an order?'',
             AgentResponse.agentType = BILLING,
             toolCalls = None,
             AgentResponse.reasoning = String ''No refunds found''\<rparr>,
            [GetPaymentHistory (userId context)])
         else
           (let refundList =
                  join ''\<newline>''
                    (map (\<lambda>p. [CHR 0xE2, CHR 0x80, CHR 0xA2] @ '' Order ''
                               @ PaymentSummary_orderNumber p @ '' - Refunded $''
                               @ PaymentSummary_amount p)
                       refundedPayments)
            in (\<lparr>content = ''Here are your refunded payments:\<newline>\<newline>'' @ refundList,
                 AgentResponse.agentType = BILLING,
                 toolCalls = None,
                 AgentResponse.reasoning = String ''Listed refunded payments''\<rparr>,
                [GetPaymentHistory (userId context)])))"

text \<open>The end of the invoice branch, in the same way: the five latest payments.\<close>

definition listRecentInvoices ::
  "BillingToolFunctions \<Rightarrow> ConversationContext \<Rightarrow> AgentResponse \<times> ToolInvocation list" where
  "listRecentInvoices tools context =
     (let payments = getPaymentHistory tools (userId context);
          invoiceList = join ''\<newline>'' (map paymentLine (take 5 payments))
      in (\<lparr>content =
             ''Your recent payment history:\<newline>\<newline>'' @ invoiceList
               @ ''\<newline>\<newline>Would you like more details on any specific payment?'',
           AgentResponse.agentType = BILLING,
           toolCalls = None,
           AgentResponse.reasoning = String ''Listed payment history''\<rparr>,
          [GetPaymentHistory (userId context)]))"

definition BillingAgentImpl_handle ::
  "BillingToolFunctions \<Rightarrow> string \<Rightarrow> ConversationContext \<Rightarrow> AgentResponse \<times> ToolInvocation list" where
  "BillingAgentImpl_handle tools message context =
     (let messageLower = toLowerCase message
      in if isRefundRequest messageLower then
           (let refundIdMatch = matchPrefixedDigits ''ref-'' message
            in case refundIdMatch of
                 None \<Rightarrow> listRefundedPayments tools context
               | Some refundId \<Rightarrow>
                   (let refundStatus = checkRefundStatus tools refundId
                    in case (if RefundResult_success refundStatus
                             then RefundResult_data refundStatus else None) of
                         Some d \<Rightarrow>
                           (\<lparr>content =
                               ''Refund '' @ refundId @ '':\<newline>''
                                 @ ''Amount: $'' @ RefundData_amount d @ '' ''
                                 @ RefundData_currency d @ ''\<newline>''
                                 @ ''Status: '' @ RefundData_status d @ ''\<newline>''
                                 @ ''Reason: '' @ orDefault (RefundData_reason d) ''Not specified''
                                 @ ''\<newline>''
                                 @ ''Requested: '' @ RefundData_createdAt d,
                             AgentResponse.agentType = BILLING,
                             toolCalls = None,
                             AgentResponse.reasoning = String ''Provided refund status''\<rparr>,
                            [CheckRefundStatus refundId])
                       | None \<Rightarrow>
                           (let (response, calls) = listRefundedPayments tools context
                            in (response, CheckRefundStatus refundId # calls))))
         else if isInvoiceRequest messageLower then
           (let invoiceIdMatch = matchPrefixedDigits ''inv-'' message
            in case invoiceIdMatch of
                 None \<Rightarrow> listRecentInvoices tools context
               | Some invoiceId \<Rightarrow>
                   (let invoice = getInvoiceDetails tools invoiceId
                    in case (if InvoiceResult_success invoice
                             then InvoiceResult_data invoice else None) of
                         Some d \<Rightarrow>
                           (\<lparr>content =
                               ''Invoice '' @ InvoiceData_id d @ '':\<newline>''
                                 @ ''Order: '' @ InvoiceData_orderNumber d @ ''\<newline>''
                                 @ ''Amount: $'' @ InvoiceData_amount d @ '' ''
                                 @ InvoiceData_currency d @ ''\<newline>''
                                 @ ''Status: '' @ InvoiceData_status d @ ''\<newline>''
                                 @ ''Payment Method: '' @ InvoiceData_paymentMethod d @ ''\<newline>''
                                 @ ''Date: '' @ InvoiceData_createdAt d @ ''\<newline>''
                                 @ (case nonEmpty (InvoiceData_invoiceUrl d) of
                                      Some url \<Rightarrow> ''\<newline>Download: '' @ url
                                    | None \<Rightarrow> []),
                             AgentResponse.agentType = BILLING,
                             toolCalls = None,
                             AgentResponse.reasoning = String ''Provided invoice details''\<rparr>,
                            [GetInvoiceDetails invoiceId])
                       | None \<Rightarrow>
                           (let (response, calls) = listRecentInvoices tools context
                            in (response, GetInvoiceDetails invoiceId # calls))))
         else if isPaymentIssue messageLower then
           (\<lparr>content =
               ''I'm sorry to hear you're experiencing a payment issue. Here are some common solutions:\<newline>\<newline>''
                 @ ''1. **Card Declined**: Try a different payment method or contact your bank\<newline>''
                 @ ''2. **Pending Charges**: Some banks show temporary holds - these usually clear in 1-3 business days\<newline>''
                 @ ''3. **Incorrect Information**: Double-check your billing address matches your card\<newline>\<newline>''
                 @ ''If the issue persists, please provide more details about the error you're seeing.'',
             AgentResponse.agentType = BILLING,
             toolCalls = None,
             AgentResponse.reasoning = String ''Provided payment issue solutions''\<rparr>,
            [])
         else if isSubscriptionQuery messageLower then
           (let subscription = getSubscriptionInfo tools (userId context)
            in if SubscriptionResult_success subscription then
                 (if SubscriptionResult_hasSubscription subscription = Some True then
                    (\<lparr>content =
                        ''Your Subscription:\<newline>''
                          @ ''Plan: '' @ interpolate (SubscriptionResult_plan subscription) @ ''\<newline>''
                          @ ''Status: '' @ interpolate (SubscriptionResult_status subscription)
                          @ ''\<newline>''
                          @ ''Next Billing Date: ''
                          @ (case SubscriptionResult_nextBillingDate subscription of
                               Some d \<Rightarrow> d
                             | None \<Rightarrow> ''N/A''),
                      AgentResponse.agentType = BILLING,
                      toolCalls = None,
                      AgentResponse.reasoning = String ''Provided subscription info''\<rparr>,
                     [GetSubscriptionInfo (userId context)])
                  else
                    (\<lparr>content = ''I don't see an active subscription on your account. Would you like to learn about our subscription plans?'',
                      AgentResponse.agentType = BILLING,
                      toolCalls = None,
                      AgentResponse.reasoning = String ''No subscription found''\<rparr>,
                     [GetSubscriptionInfo (userId context)]))
               else
                 (\<lparr>content = ''I couldn't retrieve your subscription information. Please try again later.'',
                   AgentResponse.agentType = BILLING,
                   toolCalls = None,
                   AgentResponse.reasoning = String ''Failed to retrieve subscription''\<rparr>,
                  [GetSubscriptionInfo (userId context)]))
         else
           (let payments = getPaymentHistory tools (userId context)
            in if length payments = 0 then
                 (\<lparr>content = ''I don't see any payment history for your account. Have you made any purchases?'',
                   AgentResponse.agentType = BILLING,
                   toolCalls = None,
                   AgentResponse.reasoning = String ''No payment history found''\<rparr>,
                  [GetPaymentHistory (userId context)])
               else
                 (let paymentList = join ''\<newline>'' (map paymentLine (take 10 payments))
                  in (\<lparr>content =
                         ''Your payment history:\<newline>\<newline>'' @ paymentList
                           @ ''\<newline>\<newline>How can I help you with billing?'',
                       AgentResponse.agentType = BILLING,
                       toolCalls = None,
                       AgentResponse.reasoning = String ''Listed payment history''\<rparr>,
                      [GetPaymentHistory (userId context)]))))"

section \<open>The support responder (\<open>SupportAgentImpl\<close>)\<close>

record ConversationHistoryEntry =
  ConversationHistoryEntry_id :: string
  ConversationHistoryEntry_title :: string
  ConversationHistoryEntry_agentType :: string
  ConversationHistoryEntry_createdAt :: string
  ConversationHistoryEntry_updatedAt :: string
  ConversationHistoryEntry_lastMessage :: "string option"

record ConversationHistoryResult =
  ConversationHistoryResult_success :: bool
  ConversationHistoryResult_conversations :: "ConversationHistoryEntry list option"
  ConversationHistoryResult_error :: "string option"

record FAQResult =
  FAQResult_question :: string
  FAQResult_answer :: string
  FAQResult_category :: string
  FAQResult_relevance :: number

record UserInfoData =
  UserInfoData_id :: string
  UserInfoData_name :: string
  UserInfoData_email :: string
  UserInfoData_orderCount :: string
  UserInfoData_totalSpent :: string
  UserInfoData_memberSince :: string

record UserInfoResult =
  UserInfoResult_success :: bool
  UserInfoResult_data :: "UserInfoData option"
  UserInfoResult_error :: "string option"

record InteractionSummary =
  InteractionSummary_id :: string
  InteractionSummary_type :: string
  InteractionSummary_summary :: string
  InteractionSummary_date :: string
  InteractionSummary_status :: string

record SupportToolFunctions =
  queryConversationHistory :: "string \<Rightarrow> nat \<Rightarrow> ConversationHistoryResult"
  searchFAQs :: "string \<Rightarrow> FAQResult list"
  getUserInfo :: "string \<Rightarrow> UserInfoResult"
  getRecentInteractions :: "string \<Rightarrow> InteractionSummary list"

definition isGreeting :: "string \<Rightarrow> bool" where
  "isGreeting message =
     regexTestAtStart [[''hi''], [''hello''], [''hey''], [''good morning''],
                       [''good afternoon''], [''good evening''], [''what's up'']] message"

definition isReturnRequest :: "string \<Rightarrow> bool" where
  "isReturnRequest message =
     regexTest [[''return''], [''exchange''], [''send'', ''back''], [''get'', ''money'', ''back''],
                [''not'', ''satisfied'']] message"

definition isAccountIssue :: "string \<Rightarrow> bool" where
  "isAccountIssue message =
     regexTest [[''password''], [''login''], [''can't'', ''access''], [''locked'', ''out''],
                [''account'', ''issue''], [''security''], [''2fa'']] message"

definition isContactRequest :: "string \<Rightarrow> bool" where
  "isContactRequest message =
     regexTest [[''talk'', ''human''], [''speak'', ''agent''], [''call'', ''you''],
                [''email'', ''support''], [''contact''], [''phone'', ''number'']] message"

definition isProductQuestion :: "string \<Rightarrow> bool" where
  "isProductQuestion message =
     regexTest [[''product''], [''specification''], [''feature''], [''size''], [''color''],
                [''dimension''], [''weight''], [''compatibility'']] message"

definition SupportAgentImpl_handle ::
  "SupportToolFunctions \<Rightarrow> string \<Rightarrow> ConversationContext \<Rightarrow> AgentResponse \<times> ToolInvocation list" where
  "SupportAgentImpl_handle tools message context =
     (let messageLower = toLowerCase message;
          faqs = searchFAQs tools message
      in if isGreeting messageLower then
           (\<lparr>content =
               [CHR 0xF0, CHR 0x9F, CHR 0x91, CHR 0x8B] @ '' Hello! Welcome to our customer support. How can I help you today?\<newline>\<newline>''
                 @ ''I can assist you with:\<newline>''
                 @ [CHR 0xE2, CHR 0x80, CHR 0xA2] @ '' Order status and tracking\<newline>''
                 @ [CHR 0xE2, CHR 0x80, CHR 0xA2] @ '' Billing and payment questions\<newline>''
                 @ [CHR 0xE2, CHR 0x80, CHR 0xA2] @ '' Refunds and invoices\<newline>''
                 @ [CHR 0xE2, CHR 0x80, CHR 0xA2] @ '' General product questions\<newline>''
                 @ [CHR 0xE2, CHR 0x80, CHR 0xA2] @ '' Account assistance\<newline>\<newline>''
                 @ ''Just describe what you need help with!'',
             AgentResponse.agentType = SUPPORT,
             toolCalls = None,
             AgentResponse.reasoning = String ''Provided greeting and help options''\<rparr>,
            [SearchFAQs message])
         else
           (case faqs of
              bestMatch # others \<Rightarrow>
                (\<lparr>content =
                    ''**'' @ FAQResult_question bestMatch @ ''**\<newline>\<newline>''
                      @ FAQResult_answer bestMatch @ ''\<newline>\<newline>*Category: ''
                      @ FAQResult_category bestMatch
                      @ ''*\<newline>\<newline>Is this helpful, or would you like more assistance?'',
                  AgentResponse.agentType = SUPPORT,
                  toolCalls = None,
                  AgentResponse.reasoning =
                    String (''Matched FAQ: '' @ FAQResult_category bestMatch)\<rparr>,
                 [SearchFAQs message])
            | [] \<Rightarrow>
                (let history = queryConversationHistory tools (userId context) 5;
                     calls = [SearchFAQs message, QueryConversationHistory (userId context) 5]
                 in if isReturnRequest messageLower then
                      (\<lparr>content =
                          [CHR 0xF0, CHR 0x9F, CHR 0x93, CHR 0xA6] @ '' **Return Policy**\<newline>\<newline>''
                            @ [CHR 0xE2, CHR 0x80, CHR 0xA2] @ '' 30-day return window for most items\<newline>''
                            @ [CHR 0xE2, CHR 0x80, CHR 0xA2] @ '' Items must be in original condition with tags\<newline>''
                            @ [CHR 0xE2, CHR 0x80, CHR 0xA2] @ '' Some items (personalized, final sale) cannot be returned\<newline>\<newline>''
                            @ ''To start a return:\<newline>''
                            @ ''1. Go to your Order History\<newline>''
                            @ ''2. Select the order and items to return\<newline>''
                            @ ''3. Choose your return reason\<newline>''
                            @ ''4. Print your return label\<newline>\<newline>''
                            @ ''Would you like help starting a return?'',
                        AgentResponse.agentType = SUPPORT,
                        toolCalls = None,
                        AgentResponse.reasoning = String ''Provided return policy information''\<rparr>,
                       calls)
                    else if isAccountIssue messageLower then
                      (\<lparr>content =
                          [CHR 0xF0, CHR 0x9F, CHR 0x94, CHR 0x90] @ '' **Account Assistance**\<newline>\<newline>''
                            @ ''I can help you with:\<newline>''
                            @ [CHR 0xE2, CHR 0x80, CHR 0xA2] @ '' Password reset\<newline>''
                            @ [CHR 0xE2, CHR 0x80, CHR 0xA2] @ '' Email address updates\<newline>''
                            @ [CHR 0xE2, CHR 0x80, CHR 0xA2] @ '' Account security questions\<newline>''
                            @ [CHR 0xE2, CHR 0x80, CHR 0xA2] @ '' Two-factor authentication\<newline>\<newline>''
                            @ ''What account issue are you experiencing?'',
                        AgentResponse.agentType = SUPPORT,
                        toolCalls = None,
                        AgentResponse.reasoning = String ''Provided account assistance options''\<rparr>,
                       calls)
                    else if isContactRequest messageLower then
                      (\<lparr>content =
                          [CHR 0xF0, CHR 0x9F, CHR 0x93, CHR 0x9E] @ '' **Contact Us**\<newline>\<newline>''
                            @ [CHR 0xE2, CHR 0x80, CHR 0xA2] @ '' **Email**: support@example.com\<newline>''
                            @ [CHR 0xE2, CHR 0x80, CHR 0xA2] @ '' **Phone**: 1-800-EXAMPLE (9 AM - 6 PM EST)\<newline>''
                            @ [CHR 0xE2, CHR 0x80, CHR 0xA2] @ '' **Live Chat**: Available on our website\<newline>''
                            @ [CHR 0xE2, CHR 0x80, CHR 0xA2] @ '' **Help Center**: help.example.com\<newline>\<newline>''
                            @ ''For immediate assistance, I recommend live chat or phone support.'',
                        AgentResponse.agentType = SUPPORT,
                        toolCalls = None,
                        AgentResponse.reasoning = String ''Provided contact information''\<rparr>,
                       calls)
                    else if isProductQuestion messageLower then
                      (\<lparr>content =
                          [CHR 0xF0, CHR 0x9F, CHR 0x94, CHR 0x8D] @ '' **Product Questions**\<newline>\<newline>''
                            @ ''I'd be happy to help with product questions! However, I don't have access to specific product details.\<newline>\<newline>''
                            @ ''For product information, please:\<newline>''
                            @ ''1. Visit the product page on our website\<newline>''
                            @ ''2. Check the product specifications and reviews\<newline>''
                            @ ''3. Contact our sales team for detailed questions\<newline>\<newline>''
                            @ ''Is there anything else I can help you with?'',
                        AgentResponse.agentType = SUPPORT,
                        toolCalls = None,
                        AgentResponse.reasoning = String ''Provided product question guidance''\<rparr>,
                       calls)
                    else
                      (let contextInfo =
                             (case (if ConversationHistoryResult_success history
                                    then ConversationHistoryResult_conversations history
                                    else None) of
                                Some (c # cs) \<Rightarrow>
                                  ''\<newline>\<newline>*Based on our conversation history, I see you've asked about ''
                                    @ showNat (length (c # cs)) @ '' topics before.*''
                              | _ \<Rightarrow> [])
                       in (\<lparr>content =
                              [CHR 0xF0, CHR 0x9F, CHR 0xA4, CHR 0x94] @ '' **I want to make sure I understand your question**\<newline>\<newline>''
                                @ ''Your message: '' @ [CHR 0x22] @ message @ [CHR 0x22] @ contextInfo @ ''\<newline>\<newline>''
                                @ ''I'm here to help! Here's what I can assist with:\<newline>''
                                @ [CHR 0xE2, CHR 0x80, CHR 0xA2] @ '' '' @ [CHR 0xF0, CHR 0x9F, CHR 0x93, CHR 0xA6] @ '' Orders: Status, tracking, modifications\<newline>''
                                @ [CHR 0xE2, CHR 0x80, CHR 0xA2] @ '' '' @ [CHR 0xF0, CHR 0x9F, CHR 0x92, CHR 0xB3] @ '' Billing: Payments, refunds, invoices\<newline>''
                                @ [CHR 0xE2, CHR 0x80, CHR 0xA2] @ '' '' @ [CHR 0xF0, CHR 0x9F, CHR 0x94, CHR 0xA7] @ '' Troubleshooting: Product issues, account problems\<newline>''
                                @ [CHR 0xE2, CHR 0x80, CHR 0xA2] @ '' '' @ [CHR 0xE2, CHR 0x9D, CHR 0x93] @ '' General: FAQs, policies, general questions\<newline>\<newline>''
                                @ ''Could you provide more details so I can better assist you?'',
                            AgentResponse.agentType = SUPPORT,
                            toolCalls = None,
                            AgentResponse.reasoning =
                              String ''Provided general assistance options''\<rparr>,
                           calls)))))"

section \<open>The coordinator (\<open>AgentCoordinator\<close>)\<close>

text \<open>
  The coordinator holds a router, either the keyword router or the LLM router, and the
  three responders, here each by the tools it was constructed with.
\<close>

record AgentCoordinator =
  router :: "string \<Rightarrow> ConversationContext option \<Rightarrow> RouteDecision"
  orderAgent :: OrderToolFunctions
  billingAgent :: BillingToolFunctions
  supportAgent :: SupportToolFunctions
  useLLMRouter :: bool

text \<open>
  The constructor: \<open>useLLMRouter ? llmRouter : routerAgent\<close>. The LLM router's \<open>route\<close>
  takes the message only, so the context passed to it is dropped.
\<close>

definition AgentCoordinator_new ::
  "bool \<Rightarrow> LLMServices \<Rightarrow> OrderToolFunctions \<Rightarrow> BillingToolFunctions \<Rightarrow> SupportToolFunctions
     \<Rightarrow> AgentCoordinator" where
  "AgentCoordinator_new useLLM services orderTools billingTools supportTools =
     \<lparr>router =
        (if useLLM then (\<lambda>message context. LLMRouterAgentImpl_route services message)
         else route routerAgent),
      orderAgent = orderTools,
      billingAgent = billingTools,
      supportAgent = supportTools,
      useLLMRouter = useLLM\<rparr>"

text \<open>The \<open>switch\<close> of \<open>processMessage\<close>.\<close>

definition dispatch ::
  "AgentCoordinator \<Rightarrow> AgentType \<Rightarrow> string \<Rightarrow> ConversationContext
     \<Rightarrow> AgentResponse \<times> ToolInvocation list" where
  "dispatch this a message updatedContext =
     (case a of
        ORDER \<Rightarrow> OrderAgentImpl_handle (orderAgent this) message updatedContext
      | BILLING \<Rightarrow> BillingAgentImpl_handle (billingAgent this) message updatedContext
      | SUPPORT \<Rightarrow> SupportAgentImpl_handle (supportAgent this) message updatedContext
      | _ \<Rightarrow> SupportAgentImpl_handle (supportAgent this) message updatedContext)"

definition processMessage ::
  "AgentCoordinator \<Rightarrow> string \<Rightarrow> ConversationContext \<Rightarrow> AgentResponse \<times> ToolInvocation list" where
  "processMessage this message context =
     (let routingDecision = router this message (Some context);
          updatedContext = context\<lparr>ConversationContext.agentType := agentType routingDecision\<rparr>;
          (response, calls) = dispatch this (agentType routingDecision) message updatedContext
      in (response\<lparr>AgentResponse.reasoning := reasoning routingDecision\<rparr>, calls))"

section \<open>Auxiliary notions for the properties\<close>


subsection \<open>Sample inputs\<close>

text \<open>A context as \<open>ConversationService.sendMessage\<close> builds it for a new conversation.\<close>

definition sampleContext :: "AgentType \<Rightarrow> ConversationContext" where
  "sampleContext a =
     \<lparr>conversationId = ''conv-1'', userId = ''demo-user'', previousMessages = [],
      ConversationContext.agentType = a, metadata = Some []\<rparr>"


text \<open>
  Tools over a store that holds no order, payment, refund, invoice, conversation or
  matching FAQ: every lookup reports that nothing was found.
\<close>

definition emptyOrderTools :: OrderToolFunctions where
  "emptyOrderTools =
     \<lparr>getOrderDetails =
        (\<lambda>n. \<lparr>OrderDetailsResult_success = False, OrderDetailsResult_data = None,
              OrderDetailsResult_error = Some (''Order '' @ n @ '' not found'')\<rparr>),
      getUserOrders = (\<lambda>u. []),
      trackOrder =
        (\<lambda>n. \<lparr>TrackingResult_success = False, TrackingResult_trackingNumber = None,
              TrackingResult_trackingUrl = None, TrackingResult_status = None,
              TrackingResult_estimatedDelivery = None,
              TrackingResult_error = Some (''Order '' @ n @ '' not found'')\<rparr>),
      cancelOrder =
        (\<lambda>n r. \<lparr>CancellationResult_success = False, CancellationResult_orderNumber = n,
                CancellationResult_status = ''PENDING'', CancellationResult_refundAmount = None,
                CancellationResult_message = ''Order '' @ n @ '' not found''\<rparr>),
      modifyOrder =
        (\<lambda>n m. \<lparr>ModificationResult_success = False, ModificationResult_orderNumber = n,
                ModificationResult_message = ''Order '' @ n @ '' not found'',
                ModificationResult_updatedFields = None\<rparr>)\<rparr>"

definition emptyBillingTools :: BillingToolFunctions where
  "emptyBillingTools =
     \<lparr>getInvoiceDetails =
        (\<lambda>i. \<lparr>InvoiceResult_success = False, InvoiceResult_data = None,
              InvoiceResult_error = Some (''Invoice '' @ i @ '' not found'')\<rparr>),
      getPaymentHistory = (\<lambda>u. []),
      checkRefundStatus =
        (\<lambda>r. \<lparr>RefundResult_success = False, RefundResult_data = None,
              RefundResult_error = Some (''Refund '' @ r @ '' not found'')\<rparr>),
      getSubscriptionInfo =
        (\<lambda>u. \<lparr>SubscriptionResult_success = True, SubscriptionResult_hasSubscription = Some False,
              SubscriptionResult_plan = None, SubscriptionResult_status = None,
              SubscriptionResult_nextBillingDate = None, SubscriptionResult_error = None\<rparr>),
      processRefund =
        (\<lambda>i a r. \<lparr>RefundProcessingResult_success = False, RefundProcessingResult_refundId = None,
                  RefundProcessingResult_amount = None,
                  RefundProcessingResult_message = ''Order '' @ i @ '' not found''\<rparr>)\<rparr>"

definition emptySupportTools :: SupportToolFunctions where
  "emptySupportTools =
     \<lparr>queryConversationHistory =
        (\<lambda>u n. \<lparr>ConversationHistoryResult_success = True,
                ConversationHistoryResult_conversations = Some [],
                ConversationHistoryResult_error = None\<rparr>),
      searchFAQs = (\<lambda>q. []),
      getUserInfo =
        (\<lambda>u. \<lparr>UserInfoResult_success = False, UserInfoResult_data = None,
              UserInfoResult_error = Some ''User not found''\<rparr>),
      getRecentInteractions = (\<lambda>u. [])\<rparr>"

text \<open>A text-generation service that is down, and one that answers with a category outside the enum.\<close>

definition failingServices :: LLMServices where
  "failingServices =
     \<lparr>generateText = (\<lambda>system prompt. Inl (Error ''service unavailable'')),
      trim = (\<lambda>s. s),
      JSON_parse = (\<lambda>s. Inl SyntaxError)\<rparr>"

definition strayServices :: LLMServices where
  "strayServices =
     \<lparr>generateText = (\<lambda>system prompt. Inr ''{...}''),
      trim = (\<lambda>s. s),
      JSON_parse =
        (\<lambda>s. Inr (Object [(''agentType'', String ''SHIPPING''), (''confidence'', Number 1),
                          (''reasoning'', String ''about a parcel'')]))\<rparr>"

section \<open>Properties of rounding\<close>















section \<open>Properties of the keyword scorer\<close>























section \<open>Properties of the keyword router\<close>




lemma sortedScores_length: "length (sortedScores this m) = 3"
  by (simp add: sortedScores_def js_sort_def Let_def)

lemma route_continues:
  "continuesContext this message (Some c) \<Longrightarrow>
     route this message (Some c) =
       \<lparr>agentType = ConversationContext.agentType c,
        confidence = Number (round_double (9 / 10)),
        reasoning = String ''Continuing with same agent based on conversation context''\<rparr>"
  by (simp add: route_def continuesContext_def)





text \<open>
  C1 (continuity short-circuit). When the context's agent type is \<open>ORDER\<close>, \<open>BILLING\<close> or
  \<open>SUPPORT\<close> and the message scores above the literal \<open>0.1\<close> on the keyword list of that
  same agent type, \<open>route\<close> returns that agent type with confidence \<open>0.9\<close>; the decision
  is this fixed record, whatever the other two lists score.
\<close>

theorem continuity_short_circuit:
  assumes "(c = ORDER \<and> keywords = orderKeywords routerAgent)
             \<or> (c = BILLING \<and> keywords = billingKeywords routerAgent)
             \<or> (c = SUPPORT \<and> keywords = supportKeywords routerAgent)"
    and "ConversationContext.agentType ctx = c"
    and "round_double (1 / 10) < calculateScore (toLowerCase message) keywords"
  shows "route routerAgent message (Some ctx) =
           \<lparr>agentType = c,
            confidence = Number (round_double (9 / 10)),
            reasoning = String ''Continuing with same agent based on conversation context''\<rparr>"
proof -
  have "continuesContext routerAgent message (Some ctx)"
    using assms by (auto simp: continuesContext_def agentTypeSet_def isRelatedToAgent_def)
  then show ?thesis
    using assms(2) by (simp add: route_continues)
qed

theorem continuity_short_circuit_witness:
  "ConversationContext.agentType (sampleContext ORDER) = ORDER
   \<and> round_double (1 / 10)
       < calculateScore (toLowerCase ''Where is my package?'') (orderKeywords routerAgent)
   \<and> route routerAgent ''Where is my package?'' (Some (sampleContext ORDER)) =
       \<lparr>agentType = ORDER,
        confidence = Number (round_double (9 / 10)),
        reasoning = String ''Continuing with same agent based on conversation context''\<rparr>"
proof -
  have a: "(ORDER = ORDER \<and> orderKeywords routerAgent = orderKeywords routerAgent)
             \<or> (ORDER = BILLING \<and> orderKeywords routerAgent = billingKeywords routerAgent)
             \<or> (ORDER = SUPPORT \<and> orderKeywords routerAgent = supportKeywords routerAgent)"
    by simp
  have b: "ConversationContext.agentType (sampleContext ORDER) = ORDER"
    by (simp add: sampleContext_def)
  have c: "round_double (1 / 10)
       < calculateScore (toLowerCase ''Where is my package?'') (orderKeywords routerAgent)"
    by code_simp
  from b c continuity_short_circuit [OF a b c] show ?thesis
    by blast
qed







section \<open>Properties of the responders\<close>

lemma order_agentType:
  "AgentResponse.agentType (fst (OrderAgentImpl_handle tools message context)) = ORDER"
  by (simp add: OrderAgentImpl_handle_def Let_def split: option.splits)

lemma order_calls:
  "length (snd (OrderAgentImpl_handle tools message context)) \<le> 1"
  by (simp add: OrderAgentImpl_handle_def Let_def split: option.splits)

lemma listRefundedPayments_calls:
  "snd (listRefundedPayments tools context) = [GetPaymentHistory (userId context)]"
  by (simp add: listRefundedPayments_def Let_def)

lemma listRecentInvoices_calls:
  "snd (listRecentInvoices tools context) = [GetPaymentHistory (userId context)]"
  by (simp add: listRecentInvoices_def Let_def)

lemma listRefundedPayments_agentType:
  "AgentResponse.agentType (fst (listRefundedPayments tools context)) = BILLING"
  by (simp add: listRefundedPayments_def Let_def)

lemma listRecentInvoices_agentType:
  "AgentResponse.agentType (fst (listRecentInvoices tools context)) = BILLING"
  by (simp add: listRecentInvoices_def Let_def)

lemma billing_agentType:
  "AgentResponse.agentType (fst (BillingAgentImpl_handle tools message context)) = BILLING"
  by (simp add: BillingAgentImpl_handle_def Let_def split_beta listRefundedPayments_agentType
      listRecentInvoices_agentType split: option.splits)

lemma billing_calls:
  "length (snd (BillingAgentImpl_handle tools message context)) \<le> 2
   \<and> list_all (\<lambda>t. \<not> isWrite t) (snd (BillingAgentImpl_handle tools message context))
   \<and> drop 1 (snd (BillingAgentImpl_handle tools message context))
       \<in> {[], [GetPaymentHistory (userId context)]}"
  by (simp add: BillingAgentImpl_handle_def Let_def split_beta listRefundedPayments_calls
      listRecentInvoices_calls split: option.splits)

lemma support_agentType:
  "AgentResponse.agentType (fst (SupportAgentImpl_handle tools message context)) = SUPPORT"
  by (simp add: SupportAgentImpl_handle_def Let_def split: list.splits)

lemma support_calls:
  "take 1 (snd (SupportAgentImpl_handle tools message context)) = [SearchFAQs message]
   \<and> drop 1 (snd (SupportAgentImpl_handle tools message context))
       \<in> {[], [QueryConversationHistory (userId context) 5]}
   \<and> list_all (\<lambda>t. \<not> isWrite t) (snd (SupportAgentImpl_handle tools message context))"
  by (simp add: SupportAgentImpl_handle_def Let_def split: list.splits)

section \<open>Properties of the coordinator\<close>

lemma dispatch_agentType:
  "AgentResponse.agentType (fst (dispatch this a message context)) \<in> {ORDER, BILLING, SUPPORT}"
  by (cases a) (simp_all add: dispatch_def order_agentType billing_agentType support_agentType)

text \<open>
  C5 (reasoning precedence). The response \<open>processMessage\<close> returns carries the routing
  decision's \<open>reasoning\<close>, whatever reasoning the dispatched responder had set; its content
  and agent type are the responder's.
\<close>

theorem reasoning_precedence:
  "AgentResponse.reasoning (fst (processMessage this message context))
     = reasoning (router this message (Some context))
   \<and> content (fst (processMessage this message context))
       = content (fst (dispatch this (agentType (router this message (Some context))) message
            (context\<lparr>ConversationContext.agentType :=
               agentType (router this message (Some context))\<rparr>)))
   \<and> AgentResponse.agentType (fst (processMessage this message context))
       = AgentResponse.agentType
           (fst (dispatch this (agentType (router this message (Some context))) message
              (context\<lparr>ConversationContext.agentType :=
                 agentType (router this message (Some context))\<rparr>)))"
  by (simp add: processMessage_def Let_def split_beta)

theorem reasoning_precedence_witness:
  "AgentResponse.reasoning
     (fst (processMessage
        (AgentCoordinator_new False failingServices emptyOrderTools emptyBillingTools
           emptySupportTools)
        ''Please cancel my order ORD-123 I changed my mind'' (sampleContext ROUTER)))
     = String ''Matched ORDER keywords in message''
   \<and> AgentResponse.reasoning
       (fst (OrderAgentImpl_handle emptyOrderTools
          ''Please cancel my order ORD-123 I changed my mind'' (sampleContext ORDER)))
     = String ''Order cancellation failed''"
proof -
  have r: "reasoning
     (router
        (AgentCoordinator_new False failingServices emptyOrderTools emptyBillingTools
           emptySupportTools)
        ''Please cancel my order ORD-123 I changed my mind'' (Some (sampleContext ROUTER)))
     = String ''Matched ORDER keywords in message''"
    by code_simp
  have own: "AgentResponse.reasoning
       (fst (OrderAgentImpl_handle emptyOrderTools
          ''Please cancel my order ORD-123 I changed my mind'' (sampleContext ORDER)))
     = String ''Order cancellation failed''"
    by code_simp
  from reasoning_precedence
    [of "AgentCoordinator_new False failingServices emptyOrderTools emptyBillingTools
           emptySupportTools"
        "''Please cancel my order ORD-123 I changed my mind''" "sampleContext ROUTER"]
  have "AgentResponse.reasoning
     (fst (processMessage
        (AgentCoordinator_new False failingServices emptyOrderTools emptyBillingTools
           emptySupportTools)
        ''Please cancel my order ORD-123 I changed my mind'' (sampleContext ROUTER)))
     = String ''Matched ORDER keywords in message''"
    by (simp only: r)
  with own show ?thesis
    by (simp only: simp_thms)
qed

text \<open>
  C7 (non-meta response category). The response \<open>processMessage\<close> returns has agent type
  \<open>ORDER\<close>, \<open>BILLING\<close> or \<open>SUPPORT\<close>, never \<open>ROUTER\<close>; a decision whose agent type is
  \<open>ROUTER\<close> or a value outside the enum is dispatched to the support responder.
\<close>

theorem response_category_non_meta:
  "AgentResponse.agentType (fst (processMessage this message context))
     \<in> {ORDER, BILLING, SUPPORT}
   \<and> dispatch this ROUTER message context
       = SupportAgentImpl_handle (supportAgent this) message context
   \<and> dispatch this (Unrecognized v) message context
       = SupportAgentImpl_handle (supportAgent this) message context"
proof -
  have "AgentResponse.agentType (fst (processMessage this message context))
     \<in> {ORDER, BILLING, SUPPORT}"
    using dispatch_agentType
      [of this "agentType (router this message (Some context))" message
        "context\<lparr>ConversationContext.agentType :=
           agentType (router this message (Some context))\<rparr>"]
    by (simp add: processMessage_def Let_def split_beta)
  then show ?thesis
    by (simp add: dispatch_def)
qed

theorem response_category_non_meta_witness:
  "agentType (LLMRouterAgentImpl_route strayServices ''hello'')
     = Unrecognized (String ''SHIPPING'')
   \<and> AgentResponse.agentType
       (fst (processMessage
          (AgentCoordinator_new True strayServices emptyOrderTools emptyBillingTools
             emptySupportTools)
          ''hello'' (sampleContext ROUTER)))
     = SUPPORT"
proof -
  have a: "agentType (LLMRouterAgentImpl_route strayServices ''hello'')
     = Unrecognized (String ''SHIPPING'')"
    by code_simp
  have b: "AgentResponse.agentType
       (fst (SupportAgentImpl_handle
          (supportAgent (AgentCoordinator_new True strayServices emptyOrderTools
             emptyBillingTools emptySupportTools))
          ''hello''
          ((sampleContext ROUTER)\<lparr>ConversationContext.agentType :=
             Unrecognized (String ''SHIPPING'')\<rparr>)))
     = SUPPORT"
    by code_simp
  have c: "processMessage
          (AgentCoordinator_new True strayServices emptyOrderTools emptyBillingTools
             emptySupportTools)
          ''hello'' (sampleContext ROUTER)
        = (let (response, calls) =
                 dispatch (AgentCoordinator_new True strayServices emptyOrderTools
                   emptyBillingTools emptySupportTools)
                   (Unrecognized (String ''SHIPPING'')) ''hello''
                   ((sampleContext ROUTER)\<lparr>ConversationContext.agentType :=
                      Unrecognized (String ''SHIPPING'')\<rparr>)
           in (response\<lparr>AgentResponse.reasoning :=
                 reasoning (LLMRouterAgentImpl_route strayServices ''hello'')\<rparr>, calls))"
    by (simp add: processMessage_def Let_def AgentCoordinator_new_def a)
  from response_category_non_meta
    [of "AgentCoordinator_new True strayServices emptyOrderTools emptyBillingTools
           emptySupportTools" _ _ "String ''SHIPPING''"]
  have "dispatch (AgentCoordinator_new True strayServices emptyOrderTools
                   emptyBillingTools emptySupportTools)
                   (Unrecognized (String ''SHIPPING'')) ''hello''
                   ((sampleContext ROUTER)\<lparr>ConversationContext.agentType :=
                      Unrecognized (String ''SHIPPING'')\<rparr>)
         = SupportAgentImpl_handle
          (supportAgent (AgentCoordinator_new True strayServices emptyOrderTools
             emptyBillingTools emptySupportTools))
          ''hello''
          ((sampleContext ROUTER)\<lparr>ConversationContext.agentType :=
             Unrecognized (String ''SHIPPING'')\<rparr>)"
    by blast
  with c b have "AgentResponse.agentType
       (fst (processMessage
          (AgentCoordinator_new True strayServices emptyOrderTools emptyBillingTools
             emptySupportTools)
          ''hello'' (sampleContext ROUTER)))
     = SUPPORT"
    by (simp add: split_beta)
  with a show ?thesis
    by (rule conjI)
qed

section \<open>Tool invocations of one message\<close>

text \<open>
  C6 (tool calls per invocation), as the code has it. One \<open>handle\<close> of the order responder
  makes at most one tool call. One \<open>handle\<close> of the billing responder makes at most two,
  none of them a write; a second one is the payment-history read that follows a refund or
  invoice lookup without success. One \<open>handle\<close> of the support responder makes the FAQ
  search first and at most one more call, the conversation-history read; none is a write.
\<close>

theorem tool_calls_per_invocation:
  "length (snd (OrderAgentImpl_handle orderTools message context)) \<le> 1
   \<and> length (snd (BillingAgentImpl_handle billingTools message context)) \<le> 2
   \<and> list_all (\<lambda>t. \<not> isWrite t) (snd (BillingAgentImpl_handle billingTools message context))
   \<and> drop 1 (snd (BillingAgentImpl_handle billingTools message context))
       \<in> {[], [GetPaymentHistory (userId context)]}
   \<and> take 1 (snd (SupportAgentImpl_handle supportTools message context)) = [SearchFAQs message]
   \<and> drop 1 (snd (SupportAgentImpl_handle supportTools message context))
       \<in> {[], [QueryConversationHistory (userId context) 5]}
   \<and> list_all (\<lambda>t. \<not> isWrite t) (snd (SupportAgentImpl_handle supportTools message context))"
  using order_calls [of orderTools message "context"]
    billing_calls [of billingTools message "context"]
    support_calls [of supportTools message "context"]
  by (simp only: simp_thms)

theorem tool_calls_per_invocation_witness:
  "snd (OrderAgentImpl_handle emptyOrderTools ''What is the status of refund REF-999?''
          (sampleContext BILLING)) = []
   \<and> length (snd (BillingAgentImpl_handle emptyBillingTools
          ''What is the status of refund REF-999?'' (sampleContext BILLING))) \<le> 2
   \<and> take 1 (snd (SupportAgentImpl_handle emptySupportTools
          ''What is the status of refund REF-999?'' (sampleContext BILLING)))
       = [SearchFAQs ''What is the status of refund REF-999?'']"
proof -
  have "snd (OrderAgentImpl_handle emptyOrderTools ''What is the status of refund REF-999?''
          (sampleContext BILLING)) = []"
    by code_simp
  with tool_calls_per_invocation
    [of emptyOrderTools "''What is the status of refund REF-999?''" "sampleContext BILLING"
      emptyBillingTools emptySupportTools]
  show ?thesis
    by (simp only: simp_thms)
qed

text \<open>
  The claim as first stated, at most one tool call for every responder, fails: a refund
  lookup that finds nothing is followed by the payment-history read, and the support
  responder reads the conversation history after an FAQ search without a match.
\<close>

theorem single_tool_call_counterexample:
  "\<not> length (snd (BillingAgentImpl_handle emptyBillingTools
         ''What is the status of refund REF-999?'' (sampleContext BILLING))) \<le> 1
   \<and> snd (BillingAgentImpl_handle emptyBillingTools
         ''What is the status of refund REF-999?'' (sampleContext BILLING))
       = [CheckRefundStatus ''REF-999'', GetPaymentHistory ''demo-user'']
   \<and> snd (SupportAgentImpl_handle emptySupportTools ''How do I reset it?''
         (sampleContext SUPPORT))
       = [SearchFAQs ''How do I reset it?'', QueryConversationHistory ''demo-user'' 5]"
  by code_simp

section \<open>Missing identifiers\<close>






section \<open>Properties of the LLM router\<close>

text \<open>
  C9 (LLM router fails open), as the code has it. When the text-generation call fails, or
  its reply does not parse, \<open>route\<close> returns \<open>SUPPORT\<close> with confidence \<open>0.5\<close> and the
  reasoning \<open>LLM routing failed, using fallback\<close>. \<open>route\<close> returns a decision in every
  case: what its \<open>try\<close> block throws ends in this decision.
\<close>

theorem llm_router_fail_open:
  assumes "generateText services LLMRouterAgentImpl_getSystemPrompt
               (LLMRouterAgentImpl_prompt message) = Inl e
           \<or> (\<exists>text. generateText services LLMRouterAgentImpl_getSystemPrompt
                         (LLMRouterAgentImpl_prompt message) = Inr text
                       \<and> JSON_parse services (removeFences (trim services text)) = Inl e)"
  shows "LLMRouterAgentImpl_route services message =
           \<lparr>agentType = SUPPORT,
            confidence = Number (round_double (5 / 10)),
            reasoning = String ''LLM routing failed, using fallback''\<rparr>"
  using assms
  by (auto simp: LLMRouterAgentImpl_route_def LLMRouterAgentImpl_tryRoute_def Let_def)

theorem llm_router_fail_open_witness:
  "generateText failingServices LLMRouterAgentImpl_getSystemPrompt
       (LLMRouterAgentImpl_prompt ''hello'')
     = Inl (Error ''service unavailable'')
   \<and> LLMRouterAgentImpl_route failingServices ''hello'' =
       \<lparr>agentType = SUPPORT,
        confidence = Number (1 / 2),
        reasoning = String ''LLM routing failed, using fallback''\<rparr>"
proof -
  have a: "generateText failingServices LLMRouterAgentImpl_getSystemPrompt
       (LLMRouterAgentImpl_prompt ''hello'')
     = Inl (Error ''service unavailable'')"
    by (simp add: failingServices_def)
  have half: "round_double (5 / 10) = 1 / 2"
    by code_simp
  from llm_router_fail_open [OF disjI1, OF a]
  have "LLMRouterAgentImpl_route failingServices ''hello'' =
       \<lparr>agentType = SUPPORT,
        confidence = Number (1 / 2),
        reasoning = String ''LLM routing failed, using fallback''\<rparr>"
    by (simp only: half)
  with a show ?thesis
    by (rule conjI)
qed

text \<open>
  The claim as first stated names another reasoning text, which the code does not return.
\<close>

theorem llm_router_fail_open_counterexample:
  "generateText failingServices LLMRouterAgentImpl_getSystemPrompt
       (LLMRouterAgentImpl_prompt ''hello'')
     = Inl (Error ''service unavailable'')
   \<and> reasoning (LLMRouterAgentImpl_route failingServices ''hello'')
       \<noteq> String ''classification failed, using fallback''
   \<and> reasoning (LLMRouterAgentImpl_route failingServices ''hello'')
       = String ''LLM routing failed, using fallback''"
  by code_simp

end
